theory Spec2Isabelle
  imports Main
begin

section \<open>React values\<close>

text \<open>
  A JavaScript number is an IEEE double. The component only ever tests a number for
  truthiness, so a number is kept as what it denotes: a signed value
  \<open>mantissa * 2 ^ exponent\<close> (the sign kept apart, so that \<open>-0\<close> is a value of its
  own), an infinity or \<open>NaN\<close>.
\<close>

datatype js_number = Finite bool nat int | Infinity bool | NaN

text \<open>
  The value of a JSX attribute: the source passes string literals, one boolean
  (\<open>open\<close>) and the callback. \<open>'h\<close> is the type of callbacks.
\<close>

datatype 'h attr = AStr string | ABool bool | AHandler 'h

text \<open>
  \<open>React.ReactNode\<close>: \<open>undefined\<close>, \<open>null\<close>, a boolean, a number, a string, an array
  of nodes, or an element (a portal is an object, like an element). An element is what a
  JSX tag evaluates to: the component's name, its attributes in the order written, and
  its children.
\<close>

datatype 'h node =
    Undefined
  | Null
  | Bool bool
  | Num js_number
  | Str string
  | Arr "'h node list"
  | Elem string "(string \<times> 'h attr) list" "'h node list"

text \<open>
  \<open>interface DialogModalProps\<close>. An optional string is \<open>None\<close> when the caller leaves it
  out (\<open>undefined\<close>); \<open>children\<close> is a node, \<open>Undefined\<close> when left out.
\<close>

record 'h DialogModalProps =
  "open" :: bool
  title :: "string option"
  description :: "string option"
  onClose :: 'h
  children :: "'h node"

section \<open>JavaScript operators the component uses\<close>

text \<open>ToBoolean on a number: \<open>+0\<close>, \<open>-0\<close> and \<open>NaN\<close> are falsy.\<close>

fun number_truthy :: "js_number \<Rightarrow> bool" where
  "number_truthy (Finite s m e) = (m \<noteq> 0)"
| "number_truthy (Infinity s) = True"
| "number_truthy NaN = False"

text \<open>ToBoolean on a node: every object (element, array) is truthy.\<close>

fun truthy :: "'h node \<Rightarrow> bool" where
  "truthy Undefined = False"
| "truthy Null = False"
| "truthy (Bool b) = b"
| "truthy (Num n) = number_truthy n"
| "truthy (Str s) = (s \<noteq> [])"
| "truthy (Arr ns) = True"
| "truthy (Elem tag ps cs) = True"

text \<open>\<open>a && b\<close>: the left operand itself when it is falsy, the right one otherwise.\<close>

definition js_and :: "'h node \<Rightarrow> 'h node \<Rightarrow> 'h node" where
  "js_and a b = (if truthy a then b else a)"

text \<open>An optional string read as a value: \<open>undefined\<close> when it was left out.\<close>

fun of_optional :: "string option \<Rightarrow> 'h node" where
  "of_optional None = Undefined"
| "of_optional (Some s) = Str s"

section \<open>The component\<close>

text \<open>Line 26: \<open>const showInfoOnly = !children\<close>.\<close>

definition showInfoOnly :: "'h DialogModalProps \<Rightarrow> bool" where
  "showInfoOnly p = (\<not> truthy (children p))"

text \<open>Line 31: the template literal of the container's class.\<close>

definition container_class :: "'h DialogModalProps \<Rightarrow> string" where
  "container_class p =
     ''p-0 '' @ (if showInfoOnly p then ''!max-w-md'' else ''w-full !max-w-2xl'')"

text \<open>Lines 34-47: the fragment with the header and the close button.\<close>

definition info_fragment :: "'h DialogModalProps \<Rightarrow> 'h node" where
  "info_fragment p =
     Elem ''Fragment'' []
       [Elem ''DialogHeader'' []
          [js_and (of_optional (title p))
             (Elem ''DialogTitle'' [(''className'', AStr ''flex'')]
                [of_optional (title p)]),
           js_and (of_optional (description p))
             (Elem ''DialogDescription'' [] [of_optional (description p)])],
        Elem ''div'' [(''className'', AStr ''flex justify-end pt-4'')]
          [Elem ''Button''
             [(''className'', AStr ''btn''), (''onClick'', AHandler (onClose p))]
             [Str ''Close'']]]"

text \<open>Lines 51-59: the scrollable region holding the children and the icon.\<close>

definition content_region :: "'h DialogModalProps \<Rightarrow> 'h node" where
  "content_region p =
     Elem ''div'' [(''className'', AStr ''relative max-h-[75vh] overflow-auto'')]
       [Elem ''div'' [(''className'', AStr ''relative'')] [children p],
        Elem ''IconX''
          [(''onClick'', AHandler (onClose p)),
           (''color'', AStr ''red''),
           (''className'',
            AStr ''absolute top-8 right-0 hover:bg-gray-100 rounded-md cursor-pointer'')]
          []]"

text \<open>Lines 28-63: the element the function returns.\<close>

definition SharedModal :: "'h DialogModalProps \<Rightarrow> 'h node" where
  "SharedModal p =
     Elem ''Dialog''
       [(''open'', ABool (open p)), (''onOpenChange'', AHandler (onClose p))]
       [Elem ''DialogContent'' [(''className'', AStr (container_class p))]
          [js_and (Bool (showInfoOnly p)) (info_fragment p),
           js_and (children p) (content_region p)]]"

text \<open>
  In state-passing style. \<open>'w\<close> is everything outside the function's arguments: the
  caller's state, the cells of the hooks, the host's network, storage and timers. A
  callback \<open>() => void\<close> is a transformer of it. The body of the function is one
  \<open>const\<close> and the \<open>return\<close>: it calls no hook and no callback and reads no global, so
  the state comes back as it went in.
\<close>

definition SharedModal_render ::
  "('w \<Rightarrow> 'w) DialogModalProps \<Rightarrow> 'w \<Rightarrow> ('w \<Rightarrow> 'w) node \<times> 'w" where
  "SharedModal_render p w = (SharedModal p, w)"

section \<open>Reading an element tree\<close>

fun attrs :: "'h node \<Rightarrow> (string \<times> 'h attr) list" where
  "attrs (Elem tag ps cs) = ps"
| "attrs n = []"

fun tag_of :: "'h node \<Rightarrow> string option" where
  "tag_of (Elem tag ps cs) = Some tag"
| "tag_of n = None"

fun is_element :: "'h node \<Rightarrow> bool" where
  "is_element (Elem tag ps cs) = True"
| "is_element n = False"

text \<open>The node reached from \<open>n\<close> by taking the \<open>i\<close>-th child at each step.\<close>

fun at_path :: "nat list \<Rightarrow> 'h node \<Rightarrow> 'h node option" where
  "at_path [] n = Some n"
| "at_path (i # is) (Elem tag ps cs) =
     (if i < length cs then at_path is (cs ! i) else None)"
| "at_path (i # is) n = None"

text \<open>The same from a list of roots: the first index picks the root.\<close>

fun find_at :: "nat list \<Rightarrow> 'h node list \<Rightarrow> 'h node option" where
  "find_at [] ns = None"
| "find_at (i # is) ns = (if i < length ns then at_path is (ns ! i) else None)"

text \<open>The click handler an element carries, if any.\<close>

fun onClick_of :: "'h node \<Rightarrow> 'h list" where
  "onClick_of (Elem tag ps cs) =
     (case map_of ps ''onClick'' of Some (AHandler h) \<Rightarrow> [h] | _ \<Rightarrow> [])"
| "onClick_of n = []"

text \<open>Every element with a click handler, in document order, as tag and handler.\<close>

fun actions :: "'h node \<Rightarrow> (string \<times> 'h) list" where
  "actions (Elem tag ps cs) =
     map (Pair tag) (onClick_of (Elem tag ps cs)) @ concat (map actions cs)"
| "actions (Arr ns) = concat (map actions ns)"
| "actions n = []"

text \<open>Every callback wired anywhere in a tree, under any attribute, in document order.\<close>

fun attr_handlers :: "(string \<times> 'h attr) list \<Rightarrow> 'h list" where
  "attr_handlers [] = []"
| "attr_handlers ((k, AHandler h) # ps) = h # attr_handlers ps"
| "attr_handlers (kv # ps) = attr_handlers ps"

fun handlers :: "'h node \<Rightarrow> 'h list" where
  "handlers (Elem tag ps cs) = attr_handlers ps @ concat (map handlers cs)"
| "handlers (Arr ns) = concat (map handlers ns)"
| "handlers n = []"

text \<open>The words of a class attribute, split at spaces.\<close>

fun class_words :: "string \<Rightarrow> string list" where
  "class_words [] = [[]]"
| "class_words (c # cs) =
     (if c = CHR '' '' then [] # class_words cs
      else (case class_words cs of w # ws \<Rightarrow> (c # w) # ws | [] \<Rightarrow> [[c]]))"

definition class_of :: "'h node \<Rightarrow> string list" where
  "class_of n =
     (case map_of (attrs n) ''className'' of Some (AStr s) \<Rightarrow> class_words s | _ \<Rightarrow> [])"

section \<open>Presentation modes\<close>

datatype mode = INFO_ONLY | CONTENT

text \<open>
  Where the component puts its parts, as paths from the \<open>Dialog\<close> element it returns:
  the container is the only child of the \<open>Dialog\<close>; its first child is the slot of the
  information block (lines 33-48), its second the slot of the content block (lines
  50-60).
\<close>

definition container_path :: "nat list" where "container_path = [0]"
definition info_slot :: "nat list" where "info_slot = [0, 0]"
definition content_slot :: "nat list" where "content_slot = [0, 1]"
definition title_path :: "nat list" where "title_path = [0, 0, 0, 0]"
definition description_path :: "nat list" where "description_path = [0, 0, 0, 1]"
definition close_button_path :: "nat list" where "close_button_path = [0, 0, 1, 0]"
definition payload_path :: "nat list" where "payload_path = [0, 1, 0, 0]"
definition dismiss_icon_path :: "nat list" where "dismiss_icon_path = [0, 1, 1]"

text \<open>Whether a slot of a returned tree holds an element (a block) or a bare value.\<close>

definition has_block :: "nat list \<Rightarrow> 'h node \<Rightarrow> bool" where
  "has_block path t = (case at_path path t of Some n \<Rightarrow> is_element n | None \<Rightarrow> False)"

text \<open>The mode a returned tree is in, read off the tree itself.\<close>

definition mode_of :: "'h node \<Rightarrow> mode option" where
  "mode_of t =
     (if has_block info_slot t \<and> \<not> has_block content_slot t then Some INFO_ONLY
      else if has_block content_slot t \<and> \<not> has_block info_slot t then Some CONTENT
      else None)"

text \<open>"Content is present": the caller passed something for \<open>children\<close>.\<close>

definition content_present :: "'h DialogModalProps \<Rightarrow> bool" where
  "content_present p = (children p \<noteq> Undefined)"

section \<open>The primitives the component hands its tree to\<close>

text \<open>
  Modelled from the spec: the Dialog primitive (\<open>../ui/Dialog\<close>), which is not among the
  sources. Section 4.1: "produce a visual overlay when \<open>isOpen\<close> is true and nothing when
  false"; the glossary: the Dialog primitive is the "external overlay mechanism providing
  open/close lifecycle". A \<open>Dialog\<close> element puts its children on screen when its \<open>open\<close>
  attribute is true and nothing when it is not.
\<close>

fun Dialog_shows :: "'h node \<Rightarrow> 'h node list" where
  "Dialog_shows (Elem tag ps cs) =
     (if tag = ''Dialog'' \<and> map_of ps ''open'' = Some (ABool True) then cs else [])"
| "Dialog_shows n = []"

text \<open>What a render of the component puts on screen.\<close>

definition rendered :: "'h DialogModalProps \<Rightarrow> 'h node list" where
  "rendered p = Dialog_shows (SharedModal p)"

text \<open>The node on screen at a path from the \<open>Dialog\<close> element.\<close>

definition on_screen :: "nat list \<Rightarrow> 'h DialogModalProps \<Rightarrow> 'h node option" where
  "on_screen path p = find_at path (rendered p)"










section \<open>Observations the properties are stated with\<close>

text \<open>Whether an element (not a bare value, not nothing) is on screen at a path.\<close>

definition shows_block :: "nat list \<Rightarrow> 'h DialogModalProps \<Rightarrow> bool" where
  "shows_block path p =
     (case on_screen path p of Some n \<Rightarrow> is_element n | None \<Rightarrow> False)"

text \<open>An optional text that is provided and not empty.\<close>

fun provided :: "string option \<Rightarrow> bool" where
  "provided None = False"
| "provided (Some s) = (s \<noteq> [])"

text \<open>The click actions on screen, in document order.\<close>

definition actions_on_screen :: "'h DialogModalProps \<Rightarrow> (string \<times> 'h) list" where
  "actions_on_screen p = concat (map actions (rendered p))"

text \<open>The class words of the container the component returns.\<close>

definition container_words :: "'h DialogModalProps \<Rightarrow> string list" where
  "container_words p =
     (case at_path container_path (SharedModal p) of
        Some c \<Rightarrow> class_of c
      | None \<Rightarrow> [])"

text \<open>
  The two widths of the stylesheet: \<open>max-w-md\<close> is the compact one, \<open>max-w-2xl\<close> with
  \<open>w-full\<close> the wide one.
\<close>

definition compact_width :: "string list \<Rightarrow> bool" where
  "compact_width ws = (''!max-w-md'' \<in> set ws)"

definition wide_width :: "string list \<Rightarrow> bool" where
  "wide_width ws = (''!max-w-2xl'' \<in> set ws)"

text \<open>The scenarios of the spec's section 8, and a request whose content is \<open>0\<close>.\<close>

definition scenario_A :: "string DialogModalProps" where
  "scenario_A =
     \<lparr>open = True, title = Some ''Delete item?'',
      description = Some ''This cannot be undone.'',
      onClose = ''onDismiss'', children = Undefined\<rparr>"

definition scenario_B :: "string DialogModalProps" where
  "scenario_B =
     \<lparr>open = True, title = Some ''ignored'', description = None,
      onClose = ''onDismiss'', children = Elem ''Form'' [] []\<rparr>"

definition scenario_C :: "string DialogModalProps" where
  "scenario_C =
     \<lparr>open = False, title = None, description = None,
      onClose = ''onDismiss'', children = Elem ''Form'' [] []\<rparr>"

definition zero_content :: "string DialogModalProps" where
  "zero_content =
     \<lparr>open = True, title = None, description = None,
      onClose = ''onDismiss'', children = Num (Finite False 0 0)\<rparr>"

section \<open>The shape of the returned tree\<close>

lemma falsy_not_element: "\<not> truthy n \<Longrightarrow> \<not> is_element n"
  by (cases n) simp_all

lemma falsy_no_actions: "\<not> truthy n \<Longrightarrow> actions n = []"
  by (cases n) simp_all

lemma falsy_no_handlers: "\<not> truthy n \<Longrightarrow> handlers n = []"
  by (cases n) simp_all

lemma falsy_no_children: "\<not> truthy n \<Longrightarrow> at_path (i # is) n = None"
  by (cases n) simp_all

text \<open>With falsy children the second slot holds the children's value itself.\<close>

lemma SharedModal_falsy:
  "\<not> truthy (children p) \<Longrightarrow>
   SharedModal p =
     Elem ''Dialog''
       [(''open'', ABool (open p)), (''onOpenChange'', AHandler (onClose p))]
       [Elem ''DialogContent'' [(''className'', AStr ''p-0 !max-w-md'')]
          [info_fragment p, children p]]"
  by (simp add: SharedModal_def js_and_def showInfoOnly_def container_class_def)

text \<open>With truthy children the first slot holds \<open>false\<close>.\<close>

lemma SharedModal_truthy:
  "truthy (children p) \<Longrightarrow>
   SharedModal p =
     Elem ''Dialog''
       [(''open'', ABool (open p)), (''onOpenChange'', AHandler (onClose p))]
       [Elem ''DialogContent'' [(''className'', AStr ''p-0 w-full !max-w-2xl'')]
          [Bool False, content_region p]]"
  by (simp add: SharedModal_def js_and_def showInfoOnly_def container_class_def)

lemma mode_of_falsy:
  "\<not> truthy (children p) \<Longrightarrow> mode_of (SharedModal p) = Some INFO_ONLY"
  by (simp add: SharedModal_falsy mode_of_def has_block_def info_slot_def content_slot_def
      info_fragment_def falsy_not_element)

lemma mode_of_truthy:
  "truthy (children p) \<Longrightarrow> mode_of (SharedModal p) = Some CONTENT"
  by (simp add: SharedModal_truthy mode_of_def has_block_def info_slot_def content_slot_def
      content_region_def)

lemma mode_of_SharedModal:
  "mode_of (SharedModal p) = Some (if truthy (children p) then CONTENT else INFO_ONLY)"
  by (simp add: mode_of_falsy mode_of_truthy)

lemma rendered_closed: "\<not> open p \<Longrightarrow> rendered p = []"
  by (simp add: rendered_def SharedModal_def)

lemma on_screen_open:
  "open p \<Longrightarrow> on_screen (i # is) p = at_path (i # is) (SharedModal p)"
  by (simp add: on_screen_def rendered_def SharedModal_def)

section \<open>Mode selection\<close>

text \<open>
  C1, as the spec states it: the mode is derived solely from the presence of the content,
  \<open>INFO_ONLY\<close> when it is absent and \<open>CONTENT\<close> when it is present. The source tests
  \<open>!children\<close>, the truthiness of the content: a content that is given and falsy (\<open>0\<close>
  here) is present, and the mode is \<open>INFO_ONLY\<close>.

  C1, amended: the mode is \<open>CONTENT\<close> when the content is truthy and \<open>INFO_ONLY\<close> when it
  is falsy (absent, \<open>null\<close>, \<open>false\<close>, \<open>0\<close>, \<open>NaN\<close> or the empty string); it is a function
  of the content of the request at hand alone, whatever the other fields and whatever the
  state outside the render.
\<close>

theorem mode_follows_truthiness:
  "mode_of (SharedModal p) = Some (if truthy (children p) then CONTENT else INFO_ONLY)
   \<and> (children p' = children p \<longrightarrow> mode_of (SharedModal p') = mode_of (SharedModal p))
   \<and> mode_of (fst (SharedModal_render q w)) =
       Some (if truthy (children q) then CONTENT else INFO_ONLY)"
proof (intro conjI impI)
  show "mode_of (SharedModal p) = Some (if truthy (children p) then CONTENT else INFO_ONLY)"
    by (rule mode_of_SharedModal)
  show "mode_of (fst (SharedModal_render q w)) =
       Some (if truthy (children q) then CONTENT else INFO_ONLY)"
    by (simp add: SharedModal_render_def mode_of_SharedModal)
next
  assume "children p' = children p"
  then show "mode_of (SharedModal p') = mode_of (SharedModal p)"
    by (simp add: mode_of_SharedModal)
qed

theorem mode_follows_truthiness_witness:
  "mode_of (SharedModal scenario_B) = Some CONTENT
   \<and> children scenario_C = children scenario_B
   \<and> mode_of (SharedModal scenario_C) = mode_of (SharedModal scenario_B)
   \<and> mode_of (fst (SharedModal_render
        \<lparr>open = True, title = None, description = None, onClose = Suc,
         children = Str []\<rparr> (0::nat))) = Some INFO_ONLY"
proof -
  have same: "children scenario_C = children scenario_B"
    by (simp add: scenario_B_def scenario_C_def)
  have B: "truthy (children scenario_B)"
    by (simp add: scenario_B_def)
  show ?thesis
    using same B
      mode_follows_truthiness [where p = scenario_B and p' = scenario_C
        and q = "\<lparr>open = True, title = None, description = None, onClose = Suc,
          children = Str []\<rparr>" and w = "0::nat"]
    by simp
qed

theorem mode_by_presence_counterexample:
  "content_present
     \<lparr>open = True, title = None, description = None, onClose = ''onDismiss'',
      children = Num (Finite False 0 0)\<rparr>
   \<and> mode_of (SharedModal
     \<lparr>open = True, title = None, description = None, onClose = ''onDismiss'',
      children = Num (Finite False 0 0)\<rparr>) = Some INFO_ONLY"
  by (simp add: content_present_def mode_of_falsy)

section \<open>The closed modal\<close>

text \<open>
  C2: when \<open>open\<close> is false nothing is on screen, whatever the title, the description,
  the content and the callback: the component hands \<open>open\<close> to the \<open>Dialog\<close> unchanged,
  and a closed \<open>Dialog\<close> shows nothing, so no node is on screen at any path and no
  action can be clicked.
\<close>

theorem closed_renders_nothing:
  "\<not> open p \<Longrightarrow>
   rendered p = [] \<and> on_screen path p = None \<and> actions_on_screen p = []"
  by (cases path) (simp_all add: rendered_closed on_screen_def actions_on_screen_def)

theorem closed_renders_nothing_witness:
  "\<not> open scenario_C \<and> rendered scenario_C = []
   \<and> on_screen payload_path scenario_C = None \<and> actions_on_screen scenario_C = []"
proof -
  have closed: "\<not> open scenario_C" by (simp add: scenario_C_def)
  show ?thesis using closed closed_renders_nothing [OF closed, of payload_path] by simp
qed

section \<open>The two blocks exclude each other\<close>

lemma SharedModal_ignores_texts:
  "truthy (children p) \<Longrightarrow> SharedModal (p\<lparr>title := a, description := b\<rparr>) = SharedModal p"
  by (simp add: SharedModal_truthy content_region_def)

text \<open>
  C3: exactly one of the two modes is active. The information block and the content
  block are never both in the tree (nor both missing), and in \<open>CONTENT\<close> mode the title
  and the description are not rendered, whatever they are: the slot of the information
  block holds \<open>false\<close>, no node stands where the title and the description would, and
  the returned tree is the same for any other title and description.
\<close>

theorem exactly_one_mode:
  "(has_block info_slot (SharedModal p) \<noteq> has_block content_slot (SharedModal p))
   \<and> (mode_of (SharedModal p) = Some INFO_ONLY \<or> mode_of (SharedModal p) = Some CONTENT)
   \<and> (mode_of (SharedModal p) = Some CONTENT \<longrightarrow>
        SharedModal (p\<lparr>title := a, description := b\<rparr>) = SharedModal p
        \<and> at_path info_slot (SharedModal p) = Some (Bool False)
        \<and> at_path title_path (SharedModal p) = None
        \<and> at_path description_path (SharedModal p) = None)"
proof (cases "truthy (children p)")
  case True
  have "has_block content_slot (SharedModal p)" "\<not> has_block info_slot (SharedModal p)"
    using True by (simp_all add: SharedModal_truthy has_block_def info_slot_def
        content_slot_def content_region_def)
  moreover have "at_path info_slot (SharedModal p) = Some (Bool False)"
    "at_path title_path (SharedModal p) = None"
    "at_path description_path (SharedModal p) = None"
    using True by (simp_all add: SharedModal_truthy info_slot_def title_path_def
        description_path_def)
  ultimately show ?thesis
    using True by (simp add: mode_of_truthy SharedModal_ignores_texts)
next
  case False
  have "has_block info_slot (SharedModal p)" "\<not> has_block content_slot (SharedModal p)"
    using False by (simp_all add: SharedModal_falsy has_block_def info_slot_def
        content_slot_def info_fragment_def falsy_not_element)
  then show ?thesis
    using False by (simp add: mode_of_falsy)
qed

theorem exactly_one_mode_witness:
  "mode_of (SharedModal scenario_B) = Some CONTENT
   \<and> SharedModal (scenario_B\<lparr>title := None, description := Some ''x''\<rparr>) = SharedModal scenario_B
   \<and> has_block content_slot (SharedModal scenario_B)
   \<and> \<not> has_block info_slot (SharedModal scenario_B)
   \<and> at_path title_path (SharedModal scenario_B) = None"
proof -
  have B: "mode_of (SharedModal scenario_B) = Some CONTENT"
    by (simp add: mode_of_truthy scenario_B_def)
  have C: "has_block content_slot (SharedModal scenario_B)"
    by (simp add: scenario_B_def SharedModal_truthy has_block_def content_slot_def
        content_region_def)
  show ?thesis
    using B C exactly_one_mode [where p = scenario_B and a = None and b = "Some ''x''"] by simp
qed

section \<open>The information block\<close>

lemma on_screen_title:
  "open p \<Longrightarrow> \<not> truthy (children p) \<Longrightarrow>
   on_screen title_path p =
     Some (case title p of
             None \<Rightarrow> Undefined
           | Some s \<Rightarrow> if s = [] then Str []
               else Elem ''DialogTitle'' [(''className'', AStr ''flex'')] [Str s])"
  by (simp add: title_path_def on_screen_open SharedModal_falsy info_fragment_def js_and_def
      split: option.splits)

lemma on_screen_description:
  "open p \<Longrightarrow> \<not> truthy (children p) \<Longrightarrow>
   on_screen description_path p =
     Some (case description p of
             None \<Rightarrow> Undefined
           | Some s \<Rightarrow> if s = [] then Str []
               else Elem ''DialogDescription'' [] [Str s])"
  by (simp add: description_path_def on_screen_open SharedModal_falsy info_fragment_def
      js_and_def split: option.splits)

lemma on_screen_close_button:
  "open p \<Longrightarrow> \<not> truthy (children p) \<Longrightarrow>
   on_screen close_button_path p =
     Some (Elem ''Button''
             [(''className'', AStr ''btn''), (''onClick'', AHandler (onClose p))]
             [Str ''Close''])"
  by (simp add: close_button_path_def on_screen_open SharedModal_falsy info_fragment_def)

lemma actions_info_fragment: "actions (info_fragment p) = [(''Button'', onClose p)]"
  by (cases "title p"; cases "description p")
    (simp_all add: info_fragment_def js_and_def)

lemma actions_on_screen_falsy:
  "open p \<Longrightarrow> \<not> truthy (children p) \<Longrightarrow> actions_on_screen p = [(''Button'', onClose p)]"
  by (simp add: actions_on_screen_def rendered_def SharedModal_falsy actions_info_fragment
      falsy_no_actions)

text \<open>
  C4: with \<open>open\<close> true and the content absent the component renders in \<open>INFO_ONLY\<close>
  mode. Exactly one click action is on screen, the \<open>Button\<close> labelled Close that
  carries the callback; the title region is on screen if and only if a title is provided
  and not empty, and then holds that title; the same for the description.
\<close>

theorem info_only_rendering:
  assumes "open p" and "children p = Undefined"
  shows "mode_of (SharedModal p) = Some INFO_ONLY
    \<and> actions_on_screen p = [(''Button'', onClose p)]
    \<and> on_screen close_button_path p =
        Some (Elem ''Button''
                [(''className'', AStr ''btn''), (''onClick'', AHandler (onClose p))]
                [Str ''Close''])
    \<and> shows_block title_path p = provided (title p)
    \<and> shows_block description_path p = provided (description p)
    \<and> (provided (title p) \<longrightarrow>
         on_screen title_path p =
           Some (Elem ''DialogTitle'' [(''className'', AStr ''flex'')]
                   [of_optional (title p)]))
    \<and> (provided (description p) \<longrightarrow>
         on_screen description_path p =
           Some (Elem ''DialogDescription'' [] [of_optional (description p)]))"
proof -
  have falsy: "\<not> truthy (children p)"
    using assms(2) by simp
  have "shows_block title_path p = provided (title p)"
    using assms(1) falsy by (cases "title p") (simp_all add: shows_block_def on_screen_title)
  moreover have "shows_block description_path p = provided (description p)"
    using assms(1) falsy
    by (cases "description p") (simp_all add: shows_block_def on_screen_description)
  moreover have "provided (title p) \<longrightarrow>
         on_screen title_path p =
           Some (Elem ''DialogTitle'' [(''className'', AStr ''flex'')]
                   [of_optional (title p)])"
    using assms(1) falsy by (cases "title p") (simp_all add: on_screen_title)
  moreover have "provided (description p) \<longrightarrow>
         on_screen description_path p =
           Some (Elem ''DialogDescription'' [] [of_optional (description p)])"
    using assms(1) falsy by (cases "description p") (simp_all add: on_screen_description)
  ultimately show ?thesis
    using assms(1) falsy
    by (simp add: mode_of_falsy actions_on_screen_falsy on_screen_close_button)
qed

theorem info_only_rendering_witness:
  "open scenario_A \<and> children scenario_A = Undefined
   \<and> actions_on_screen scenario_A = [(''Button'', ''onDismiss'')]
   \<and> on_screen title_path scenario_A =
       Some (Elem ''DialogTitle'' [(''className'', AStr ''flex'')] [Str ''Delete item?''])
   \<and> on_screen description_path scenario_A =
       Some (Elem ''DialogDescription'' [] [Str ''This cannot be undone.''])
   \<and> \<not> shows_block title_path (scenario_A\<lparr>title := Some []\<rparr>)
   \<and> \<not> shows_block description_path (scenario_A\<lparr>description := None\<rparr>)"
proof -
  have A: "open scenario_A" "children scenario_A = Undefined"
    by (simp_all add: scenario_A_def)
  have A': "open (scenario_A\<lparr>title := Some []\<rparr>)"
    "children (scenario_A\<lparr>title := Some []\<rparr>) = Undefined"
    "open (scenario_A\<lparr>description := None\<rparr>)"
    "children (scenario_A\<lparr>description := None\<rparr>) = Undefined"
    by (simp_all add: scenario_A_def)
  have t: "title scenario_A = Some ''Delete item?''"
    "description scenario_A = Some ''This cannot be undone.''"
    "onClose scenario_A = ''onDismiss''"
    by (simp_all add: scenario_A_def)
  show ?thesis
    using A t info_only_rendering [OF A] info_only_rendering [OF A'(1,2)]
      info_only_rendering [OF A'(3,4)]
    by simp
qed

section \<open>The content block\<close>

lemma actions_on_screen_truthy:
  "open p \<Longrightarrow> truthy (children p) \<Longrightarrow>
   actions_on_screen p = actions (children p) @ [(''IconX'', onClose p)]"
  by (simp add: actions_on_screen_def rendered_def SharedModal_truthy content_region_def)

text \<open>
  C5, as the spec states it: with \<open>open\<close> true and the content present, the content is
  rendered inside the scrollable region, with the dismiss icon. The two blocks are chosen
  by the truthiness of the content: a content that is given and falsy (\<open>0\<close>, say)
  gets no scrollable region and no icon.

  C5, amended: with \<open>open\<close> true and a truthy content, the content block is on screen:
  the content itself, unchanged, inside a region whose class bounds its height to 75
  percent of the viewport (\<open>max-h-[75vh]\<close>) and lets it scroll (\<open>overflow-auto\<close>),
  followed by the icon, placed at the top right (\<open>absolute top-8 right-0\<close>) and
  carrying the callback; the icon is the only click action the component adds to those of
  the content.
\<close>

theorem content_rendering:
  assumes "open p" and "truthy (children p)"
  shows "mode_of (SharedModal p) = Some CONTENT
    \<and> on_screen payload_path p = Some (children p)
    \<and> on_screen content_slot p =
        Some (Elem ''div'' [(''className'', AStr ''relative max-h-[75vh] overflow-auto'')]
                [Elem ''div'' [(''className'', AStr ''relative'')] [children p],
                 Elem ''IconX''
                   [(''onClick'', AHandler (onClose p)),
                    (''color'', AStr ''red''),
                    (''className'',
                     AStr ''absolute top-8 right-0 hover:bg-gray-100 rounded-md cursor-pointer'')]
                   []])
    \<and> map_option class_of (on_screen content_slot p) =
        Some [''relative'', ''max-h-[75vh]'', ''overflow-auto'']
    \<and> map_option tag_of (on_screen dismiss_icon_path p) = Some (Some ''IconX'')
    \<and> map_option onClick_of (on_screen dismiss_icon_path p) = Some [onClose p]
    \<and> map_option class_of (on_screen dismiss_icon_path p) =
        Some [''absolute'', ''top-8'', ''right-0'', ''hover:bg-gray-100'', ''rounded-md'',
              ''cursor-pointer'']
    \<and> actions_on_screen p = actions (children p) @ [(''IconX'', onClose p)]"
proof -
  have region: "on_screen content_slot p = Some (content_region p)"
    using assms by (simp add: content_slot_def on_screen_open SharedModal_truthy)
  have payload: "on_screen payload_path p = Some (children p)"
    using assms by (simp add: payload_path_def on_screen_open SharedModal_truthy
        content_region_def)
  have icon: "on_screen dismiss_icon_path p =
      Some (Elem ''IconX''
               [(''onClick'', AHandler (onClose p)),
                (''color'', AStr ''red''),
                (''className'',
                 AStr ''absolute top-8 right-0 hover:bg-gray-100 rounded-md cursor-pointer'')]
               [])"
    using assms by (simp add: dismiss_icon_path_def on_screen_open SharedModal_truthy
        content_region_def)
  have words: "class_of (content_region p) = [''relative'', ''max-h-[75vh]'', ''overflow-auto'']"
    by (simp add: content_region_def class_of_def)
  show ?thesis
    using assms region payload words
    by (simp add: icon mode_of_truthy actions_on_screen_truthy class_of_def)
      (simp add: content_region_def)
qed

theorem content_rendering_witness:
  "open scenario_B \<and> truthy (children scenario_B)
   \<and> on_screen payload_path scenario_B = Some (Elem ''Form'' [] [])
   \<and> actions_on_screen scenario_B = [(''IconX'', ''onDismiss'')]
   \<and> map_option tag_of (on_screen dismiss_icon_path scenario_B) = Some (Some ''IconX'')"
proof -
  have B: "open scenario_B" "truthy (children scenario_B)"
    by (simp_all add: scenario_B_def)
  have f: "children scenario_B = Elem ''Form'' [] []" "onClose scenario_B = ''onDismiss''"
    by (simp_all add: scenario_B_def)
  show ?thesis
    using B f content_rendering [OF B] by simp
qed

theorem content_present_counterexample:
  "open \<lparr>open = True, title = None, description = None, onClose = ''onDismiss'',
      children = Num (Finite False 0 0)\<rparr>
   \<and> content_present
     \<lparr>open = True, title = None, description = None, onClose = ''onDismiss'',
      children = Num (Finite False 0 0)\<rparr>
   \<and> \<not> shows_block content_slot
     \<lparr>open = True, title = None, description = None, onClose = ''onDismiss'',
      children = Num (Finite False 0 0)\<rparr>
   \<and> on_screen payload_path 
     \<lparr>open = True, title = None, description = None, onClose = ''onDismiss'',
      children = Num (Finite False 0 0)\<rparr> = None
   \<and> on_screen dismiss_icon_path
     \<lparr>open = True, title = None, description = None, onClose = ''onDismiss'',
      children = Num (Finite False 0 0)\<rparr> = None"
  by (simp add: content_present_def shows_block_def on_screen_open SharedModal_falsy
      content_slot_def payload_path_def dismiss_icon_path_def)

section \<open>The width of the container\<close>

lemma container_words_SharedModal:
  "container_words p =
     (if truthy (children p) then [''p-0'', ''w-full'', ''!max-w-2xl'']
      else [''p-0'', ''!max-w-md''])"
  by (simp add: container_words_def container_path_def SharedModal_def class_of_def
      container_class_def showInfoOnly_def)

text \<open>
  C7: the width class of the container depends on the mode only. In \<open>INFO_ONLY\<close> mode
  the class is \<open>p-0 !max-w-md\<close>, the compact width and not the wide one; in \<open>CONTENT\<close>
  mode it is \<open>p-0 w-full !max-w-2xl\<close>, the wide width and not the compact one; two
  requests in the same mode get the same class.
\<close>

theorem width_follows_mode:
  "(mode_of (SharedModal p) = Some INFO_ONLY \<longrightarrow>
      container_words p = [''p-0'', ''!max-w-md'']
      \<and> compact_width (container_words p) \<and> \<not> wide_width (container_words p))
   \<and> (mode_of (SharedModal p) = Some CONTENT \<longrightarrow>
      container_words p = [''p-0'', ''w-full'', ''!max-w-2xl'']
      \<and> wide_width (container_words p) \<and> \<not> compact_width (container_words p))
   \<and> (mode_of (SharedModal p') = mode_of (SharedModal p) \<longrightarrow>
      container_words p' = container_words p)"
  by (simp add: mode_of_SharedModal container_words_SharedModal compact_width_def
      wide_width_def)

theorem width_follows_mode_witness:
  "mode_of (SharedModal scenario_A) = Some INFO_ONLY
   \<and> compact_width (container_words scenario_A)
   \<and> \<not> wide_width (container_words scenario_A)
   \<and> mode_of (SharedModal scenario_B) = Some CONTENT
   \<and> container_words scenario_B = [''p-0'', ''w-full'', ''!max-w-2xl'']
   \<and> mode_of (SharedModal scenario_C) = mode_of (SharedModal scenario_B)
   \<and> container_words scenario_C = container_words scenario_B"
proof -
  have A: "mode_of (SharedModal scenario_A) = Some INFO_ONLY"
    by (simp add: mode_of_falsy scenario_A_def)
  have B: "mode_of (SharedModal scenario_B) = Some CONTENT"
    by (simp add: mode_of_truthy scenario_B_def)
  have C: "mode_of (SharedModal scenario_C) = Some CONTENT"
    by (simp add: mode_of_truthy scenario_C_def)
  show ?thesis
    using A B C width_follows_mode [where p = scenario_A and p' = scenario_A]
      width_follows_mode [where p = scenario_B and p' = scenario_C]
    by (simp add: compact_width_def wide_width_def)
qed

section \<open>Dismissal\<close>









section \<open>Content that is given and falsy\<close>

text \<open>
  C9: with \<open>open\<close> true and a content that is given but falsy (the empty string, \<open>0\<close>,
  \<open>false\<close>), \<open>showInfoOnly\<close> is true and the mode is \<open>INFO_ONLY\<close>: the information
  block with its close button is on screen, the button being the only click action, and
  neither the scrollable region nor the dismiss icon is; the slot of the content block
  holds the falsy value itself.
\<close>

theorem falsy_content_is_info_only:
  assumes "open p" and "content_present p" and "\<not> truthy (children p)"
  shows "showInfoOnly p
    \<and> mode_of (SharedModal p) = Some INFO_ONLY
    \<and> on_screen info_slot p = Some (info_fragment p)
    \<and> shows_block info_slot p
    \<and> map_option tag_of (on_screen close_button_path p) = Some (Some ''Button'')
    \<and> actions_on_screen p = [(''Button'', onClose p)]
    \<and> on_screen content_slot p = Some (children p)
    \<and> \<not> shows_block content_slot p
    \<and> on_screen payload_path p = None
    \<and> on_screen dismiss_icon_path p = None"
proof -
  have "on_screen info_slot p = Some (info_fragment p)"
    using assms by (simp add: info_slot_def on_screen_open SharedModal_falsy)
  moreover have "shows_block info_slot p"
    using assms by (simp add: shows_block_def info_slot_def on_screen_open SharedModal_falsy
        info_fragment_def)
  moreover have "on_screen content_slot p = Some (children p)"
    using assms by (simp add: content_slot_def on_screen_open SharedModal_falsy)
  moreover have "\<not> shows_block content_slot p"
    using assms by (simp add: shows_block_def content_slot_def on_screen_open
        SharedModal_falsy falsy_not_element)
  moreover have "on_screen payload_path p = None" "on_screen dismiss_icon_path p = None"
    using assms by (simp_all add: payload_path_def dismiss_icon_path_def on_screen_open
        SharedModal_falsy falsy_no_children)
  moreover have "map_option tag_of (on_screen close_button_path p) = Some (Some ''Button'')"
    using assms
    by (simp add: close_button_path_def on_screen_open SharedModal_falsy info_fragment_def)
  ultimately show ?thesis
    using assms by (simp add: showInfoOnly_def mode_of_falsy actions_on_screen_falsy)
qed

theorem falsy_content_is_info_only_witness:
  "open zero_content \<and> content_present zero_content \<and> \<not> truthy (children zero_content)
   \<and> mode_of (SharedModal zero_content) = Some INFO_ONLY
   \<and> actions_on_screen zero_content = [(''Button'', ''onDismiss'')]
   \<and> on_screen content_slot zero_content = Some (Num (Finite False 0 0))
   \<and> on_screen dismiss_icon_path zero_content = None
   \<and> mode_of (SharedModal (zero_content\<lparr>children := Str []\<rparr>)) = Some INFO_ONLY
   \<and> mode_of (SharedModal (zero_content\<lparr>children := Bool False\<rparr>)) = Some INFO_ONLY"
proof -
  have Z: "open zero_content" "content_present zero_content"
    "\<not> truthy (children zero_content)"
    by (simp_all add: zero_content_def content_present_def)
  have E: "open (zero_content\<lparr>children := Str []\<rparr>)"
    "content_present (zero_content\<lparr>children := Str []\<rparr>)"
    "\<not> truthy (children (zero_content\<lparr>children := Str []\<rparr>))"
    by (simp_all add: zero_content_def content_present_def)
  have F: "open (zero_content\<lparr>children := Bool False\<rparr>)"
    "content_present (zero_content\<lparr>children := Bool False\<rparr>)"
    "\<not> truthy (children (zero_content\<lparr>children := Bool False\<rparr>))"
    by (simp_all add: zero_content_def content_present_def)
  have f: "children zero_content = Num (Finite False 0 0)"
    "onClose zero_content = ''onDismiss''"
    by (simp_all add: zero_content_def)
  show ?thesis
    using Z f falsy_content_is_info_only [OF Z] falsy_content_is_info_only [OF E]
      falsy_content_is_info_only [OF F]
    by simp
qed

section \<open>What the component wires\<close>

text \<open>
  The handlers in the returned tree: \<open>onClose\<close> on the \<open>Dialog\<close> and on the one close
  action, next to those the content brings. The \<open>open\<close> attribute of the \<open>Dialog\<close> is
  the caller's \<open>open\<close>.
\<close>

lemma handlers_info_fragment: "handlers (info_fragment p) = [onClose p]"
  by (cases "title p"; cases "description p")
    (simp_all add: info_fragment_def js_and_def)

lemma handlers_SharedModal:
  "handlers (SharedModal p) =
     (if truthy (children p) then onClose p # handlers (children p) @ [onClose p]
      else [onClose p, onClose p])"
  by (simp add: SharedModal_truthy SharedModal_falsy handlers_info_fragment
      content_region_def falsy_no_handlers)

lemma Dialog_attrs_SharedModal:
  "map_of (attrs (SharedModal p)) ''open'' = Some (ABool (open p))
   \<and> map_of (attrs (SharedModal p)) ''onOpenChange'' = Some (AHandler (onClose p))"
  by (simp add: SharedModal_def)

end
